theory Spec2Isabelle
  imports Main
begin

section \<open>Machine integers and conversions\<close>

text \<open>
  Go's \<open>int64\<close> and \<open>time.Duration\<close> are 64-bit two's complement integers. They are
  modelled as \<open>int\<close> with the wrap-around written out: \<open>wrap64\<close> is what an \<open>int64\<close>
  holds after an addition, subtraction or multiplication whose exact result is its argument.
\<close>

definition wrap64 :: "int \<Rightarrow> int" where
  "wrap64 x = (x + 2 ^ 63) mod 2 ^ 64 - 2 ^ 63"

definition in_int64 :: "int \<Rightarrow> bool" where
  "in_int64 x \<longleftrightarrow> - (2 ^ 63) \<le> x \<and> x < 2 ^ 63"

text \<open>
  The score of a sorted-set member is a \<open>float64\<close>. This package only ever writes
  \<open>float64(n)\<close> for an \<open>int64\<close> \<open>n\<close>, which is an integer again, so the model keeps scores
  as integers and writes the rounding of the conversion out: a \<open>float64\<close> has a 53-bit
  significand, an integer of magnitude at most \<open>2 ^ 53\<close> converts exactly, and a larger one is
  rounded to the nearest multiple of \<open>2 ^ (bit_length - 53)\<close>, ties to the even significand.
\<close>

fun bit_length :: "int \<Rightarrow> nat" where
  "bit_length a = (if a \<le> 0 then 0 else Suc (bit_length (a div 2)))"

declare bit_length.simps [simp del]

definition round_half_even :: "int \<Rightarrow> int \<Rightarrow> int" where
  "round_half_even a u =
     (let q = a div u; r = a mod u
      in if 2 * r < u then q * u
         else if u < 2 * r then (q + 1) * u
         else if even q then q * u else (q + 1) * u)"

definition float64 :: "int \<Rightarrow> int" where
  "float64 x =
     (if \<bar>x\<bar> \<le> 2 ^ 53 then x
      else sgn x * round_half_even \<bar>x\<bar> (2 ^ (bit_length \<bar>x\<bar> - 53)))"

text \<open>
  \<open>int64(f)\<close> for an integer-valued \<open>float64\<close>: the value itself when it fits. Outside the
  range the Go specification leaves the result to the implementation; amd64 yields the
  smallest \<open>int64\<close>, which is what is written here.
\<close>

definition int64 :: "int \<Rightarrow> int" where
  "int64 f = (if in_int64 f then f else - (2 ^ 63))"

section \<open>Package time\<close>

text \<open>
  A \<open>time.Duration\<close> is an \<open>int64\<close> count of nanoseconds. A \<open>time.Time\<close> is modelled by
  its wall-clock reading: seconds since the Unix epoch and nanoseconds within the second
  (the monotonic reading that \<open>time.Now\<close> attaches is left out). Go keeps the seconds
  counted from the year 1, which is \<open>unixToInternal\<close> seconds before the epoch, in an
  \<open>int64\<close>: the records that are values of \<open>time.Time\<close> are those that \<open>valid_Time\<close>
  accepts, and on them \<open>After\<close>, \<open>Before\<close> and \<open>Sub\<close> below are Go's.
\<close>

type_synonym Duration = int

definition Millisecond :: Duration where
  "Millisecond = 1000000"

definition Second :: Duration where
  "Second = 1000000000"

definition Minute :: Duration where
  "Minute = 60 * Second"

definition minDuration :: Duration where
  "minDuration = - (2 ^ 63)"

definition maxDuration :: Duration where
  "maxDuration = 2 ^ 63 - 1"

record Time =
  sec :: int
  nsec :: int

definition unixToInternal :: int where
  "unixToInternal = 62135596800"

definition valid_Time :: "Time \<Rightarrow> bool" where
  "valid_Time t \<longleftrightarrow>
     0 \<le> nsec t \<and> nsec t < 1000000000 \<and> in_int64 (sec t + unixToInternal)"

text \<open>
  \<open>t.Unix()\<close>: the whole seconds since the epoch, an \<open>int64\<close>: the seconds from the year 1
  minus \<open>unixToInternal\<close>, wrapping around. The nanoseconds are dropped.
\<close>

definition Unix :: "Time \<Rightarrow> int" where
  "Unix t = wrap64 (sec t)"

text \<open>
  \<open>time.Unix(s, n)\<close>: the instant \<open>s\<close> seconds and \<open>n\<close> nanoseconds after the epoch; the
  nanoseconds are brought within the second and \<open>unixToInternal\<close> is added in \<open>int64\<close>.
\<close>

definition time_Unix :: "int \<Rightarrow> int \<Rightarrow> Time" where
  "time_Unix s n =
     \<lparr>sec = wrap64 (s + n div 1000000000 + unixToInternal) - unixToInternal,
      nsec = n mod 1000000000\<rparr>"

definition After :: "Time \<Rightarrow> Time \<Rightarrow> bool" where
  "After t u \<longleftrightarrow> sec t > sec u \<or> (sec t = sec u \<and> nsec t > nsec u)"

definition Before :: "Time \<Rightarrow> Time \<Rightarrow> bool" where
  "Before t u \<longleftrightarrow> sec t < sec u \<or> (sec t = sec u \<and> nsec t < nsec u)"

text \<open>
  \<open>t.Sub(u)\<close>: the duration \<open>t - u\<close>; when it does not fit a \<open>Duration\<close>, the largest
  (or smallest) \<open>Duration\<close> is returned instead.
\<close>

definition Sub :: "Time \<Rightarrow> Time \<Rightarrow> Duration" where
  "Sub t u =
     (let d = (sec t - sec u) * Second + (nsec t - nsec u)
      in if d < minDuration then minDuration
         else if maxDuration < d then maxDuration
         else d)"

section \<open>The store\<close>

text \<open>
  The Redis server behind \<open>redis.Client\<close>: sorted sets by key, each a list of
  \<open>(member, score)\<close> entries, and string keys holding a value and its time to live
  (\<open>None\<close> when the key does not expire). Sorted-set keys and string keys are kept apart, as
  the store contract of the specification has them.
\<close>

type_synonym zset = "(string \<times> int) list"

record Redis =
  zsets :: "string \<Rightarrow> zset"
  strings :: "string \<rightharpoonup> string \<times> Duration option"

datatype redis_error = RedisNil | RedisErr string

fun err_string :: "redis_error \<Rightarrow> string" where
  "err_string RedisNil = ''redis: nil''"
| "err_string (RedisErr s) = s"

datatype Member = MString string | MOther string

datatype cmd =
    BZPopMin Duration string
  | ZAdd string string int
  | ZRem string string
  | Get string
  | Set string string Duration
  | Del string

text \<open>Byte-wise lexicographic order on members, which breaks ties between equal scores.\<close>

fun str_less :: "string \<Rightarrow> string \<Rightarrow> bool" where
  "str_less [] [] = False"
| "str_less [] (y # ys) = True"
| "str_less (x # xs) [] = False"
| "str_less (x # xs) (y # ys) =
     ((of_char x :: nat) < of_char y \<or> (x = y \<and> str_less xs ys))"

definition zless :: "string \<times> int \<Rightarrow> string \<times> int \<Rightarrow> bool" where
  "zless a b \<longleftrightarrow> snd a < snd b \<or> (snd a = snd b \<and> str_less (fst a) (fst b))"

fun zmin :: "zset \<Rightarrow> (string \<times> int) option" where
  "zmin [] = None"
| "zmin (e # es) =
     (case zmin es of
        None \<Rightarrow> Some e
      | Some m \<Rightarrow> if zless e m then Some e else Some m)"

definition zdelete :: "string \<Rightarrow> zset \<Rightarrow> zset" where
  "zdelete m zs = filter (\<lambda>e. fst e \<noteq> m) zs"

definition zadd :: "string \<Rightarrow> string \<Rightarrow> int \<Rightarrow> Redis \<Rightarrow> Redis" where
  "zadd key m s r = r\<lparr>zsets := (zsets r)(key := (m, s) # zdelete m (zsets r key))\<rparr>"

definition zrem :: "string \<Rightarrow> string \<Rightarrow> Redis \<Rightarrow> Redis" where
  "zrem key m r = r\<lparr>zsets := (zsets r)(key := zdelete m (zsets r key))\<rparr>"

text \<open>
  \<open>Set(key, value, expiration)\<close> of the client: an expiration that is not positive sets the
  key with no expiry; a positive one is sent in whole seconds (\<open>EX\<close>) when it is a whole
  number of seconds and in whole milliseconds (\<open>PX\<close>) otherwise, the rest cut off. What
  the client sends for a positive expiration below one millisecond depends on its version;
  the model takes the one millisecond of the later versions. This package never passes such
  an expiration (lemma \<open>AddTimer_exp_cases\<close>).
\<close>

definition usePrecise :: "Duration \<Rightarrow> bool" where
  "usePrecise dur \<longleftrightarrow> dur < Second \<or> dur mod Second \<noteq> 0"

definition formatMs :: "Duration \<Rightarrow> int" where
  "formatMs dur = (if 0 < dur \<and> dur < Millisecond then 1 else dur div Millisecond)"

definition formatSec :: "Duration \<Rightarrow> int" where
  "formatSec dur = dur div Second"

definition set_ex :: "string \<Rightarrow> string \<Rightarrow> Duration \<Rightarrow> Redis \<Rightarrow> Redis" where
  "set_ex key v exp r =
     (if 0 < exp
      then if usePrecise exp
           then r\<lparr>strings := (strings r)(key \<mapsto> (v, Some (formatMs exp * Millisecond)))\<rparr>
           else r\<lparr>strings := (strings r)(key \<mapsto> (v, Some (formatSec exp * Second)))\<rparr>
      else r\<lparr>strings := (strings r)(key \<mapsto> (v, None))\<rparr>)"

definition del :: "string \<Rightarrow> Redis \<Rightarrow> Redis" where
  "del key r = r\<lparr>strings := (strings r)(key := None)\<rparr>"

text \<open>
  A call on the client either fails in transport (the fault, an error message, is given by
  the environment and the store is not touched) or runs on the store.
  \<open>BZPopMin\<close> removes and returns the member of lowest score; when the sorted set stays
  empty for the whole timeout it returns \<open>redis.Nil\<close>.
\<close>

definition redis_BZPopMin ::
  "string option \<Rightarrow> Duration \<Rightarrow> string \<Rightarrow> Redis
     \<Rightarrow> (redis_error + string \<times> Member \<times> int) \<times> Redis" where
  "redis_BZPopMin fault timeout key r =
     (case fault of
        Some msg \<Rightarrow> (Inl (RedisErr msg), r)
      | None \<Rightarrow>
          (case zmin (zsets r key) of
             None \<Rightarrow> (Inl RedisNil, r)
           | Some (m, s) \<Rightarrow>
               (Inr (key, MString m, s),
                r\<lparr>zsets := (zsets r)(key := zdelete m (zsets r key))\<rparr>)))"

definition redis_ZAdd ::
  "string option \<Rightarrow> string \<Rightarrow> string \<Rightarrow> int \<Rightarrow> Redis \<Rightarrow> redis_error option \<times> Redis" where
  "redis_ZAdd fault key m s r =
     (case fault of
        Some msg \<Rightarrow> (Some (RedisErr msg), r)
      | None \<Rightarrow> (None, zadd key m s r))"

definition redis_Get ::
  "string option \<Rightarrow> string \<Rightarrow> Redis \<Rightarrow> (redis_error + string) \<times> Redis" where
  "redis_Get fault key r =
     (case fault of
        Some msg \<Rightarrow> (Inl (RedisErr msg), r)
      | None \<Rightarrow>
          (case strings r key of
             None \<Rightarrow> (Inl RedisNil, r)
           | Some (v, exp) \<Rightarrow> (Inr v, r)))"

text \<open>
  A pipeline queues commands and \<open>Exec\<close> sends them together. Each queued command has its
  own outcome: it runs on the store, or it fails with the fault the environment gives for
  it (a missing fault is no fault). \<open>Exec\<close> returns the error of the first failed command.
\<close>

fun apply_cmd :: "cmd \<Rightarrow> Redis \<Rightarrow> Redis" where
  "apply_cmd (ZAdd key m s) r = zadd key m s r"
| "apply_cmd (ZRem key m) r = zrem key m r"
| "apply_cmd (Set key v exp) r = set_ex key v exp r"
| "apply_cmd (Del key) r = del key r"
| "apply_cmd (BZPopMin timeout key) r = snd (redis_BZPopMin None timeout key r)"
| "apply_cmd (Get key) r = r"

fun first_error :: "redis_error option \<Rightarrow> redis_error option \<Rightarrow> redis_error option" where
  "first_error (Some e) later = Some e"
| "first_error None later = later"

fun Exec :: "string option list \<Rightarrow> cmd list \<Rightarrow> Redis \<Rightarrow> redis_error option \<times> Redis" where
  "Exec faults [] r = (None, r)"
| "Exec [] (c # cs) r = Exec [] cs (apply_cmd c r)"
| "Exec (None # faults) (c # cs) r = Exec faults cs (apply_cmd c r)"
| "Exec (Some msg # faults) (c # cs) r =
     (let (err, r') = Exec faults cs r in (first_error (Some (RedisErr msg)) err, r'))"

section \<open>Timers and the manager\<close>

record Timer =
  ID :: string
  Ctx :: string
  Deadline :: Time

text \<open>
  The notification channel: the buffered timers, oldest first, and the capacity it was
  made with.
\<close>

record Chan =
  buf :: "Timer list"
  cap :: nat

record Manager =
  name :: string
  redis :: Redis
  notifys :: Chan

text \<open>What the package does to the outside, in the order it does it.\<close>

datatype event =
    Call cmd
  | Pipeline "cmd list"
  | Log_Warn string
  | Log_Error string
  | Sleep Duration
  | Send Timer
  | After_fired Duration

datatype panic = Panic string

text \<open>
  \<open>NewManager\<close>: \<open>make\<close> panics on a negative capacity; the poller it starts is
  \<open>background\<close> below.
\<close>

definition NewManager :: "string \<Rightarrow> int \<Rightarrow> Redis \<Rightarrow> panic + Manager" where
  "NewManager nm capacity r =
     (if capacity < 0 then Inl (Panic ''makechan: size out of range'')
      else Inr \<lparr>name = nm, redis = r, notifys = \<lparr>buf = [], cap = nat capacity\<rparr>\<rparr>)"

definition GetNotifys :: "Manager \<Rightarrow> Chan" where
  "GetNotifys mgr = notifys mgr"

definition ContextKey :: "Manager \<Rightarrow> string \<Rightarrow> string" where
  "ContextKey mgr tid = name mgr @ ''_'' @ tid"

text \<open>
  \<open>AddTimer\<close>, given the reading of the clock and the faults of the two queued commands.
  It returns the error (if any), the manager with the store as the batch left it, and the
  batch it sent.
\<close>

definition AddTimer ::
  "Time \<Rightarrow> string option list \<Rightarrow> Timer \<Rightarrow> Manager \<Rightarrow> string option \<times> Manager \<times> event list" where
  "AddTimer now faults t mgr =
     (let exp0 = Minute * 10;
          exp = (if After (Deadline t) now then wrap64 (exp0 + Sub (Deadline t) now) else exp0);
          cmds = [Set (ContextKey mgr (ID t)) (Ctx t) exp,
                  ZAdd (name mgr) (ID t) (float64 (Unix (Deadline t)))];
          (err, r') = Exec faults cmds (redis mgr)
      in (case err of
            Some e \<Rightarrow> Some (''failed to add timer: '' @ err_string e)
          | None \<Rightarrow> None,
          mgr\<lparr>redis := r'\<rparr>, [Pipeline cmds]))"

definition DelTimer ::
  "string option list \<Rightarrow> string \<Rightarrow> Manager \<Rightarrow> string option \<times> Manager \<times> event list" where
  "DelTimer faults tid mgr =
     (let cmds = [ZRem (name mgr) tid, Del (ContextKey mgr tid)];
          (err, r') = Exec faults cmds (redis mgr)
      in (case err of
            Some e \<Rightarrow> Some (''failed to del timer: '' @ err_string e)
          | None \<Rightarrow> None,
          mgr\<lparr>redis := r'\<rparr>, [Pipeline cmds]))"

section \<open>The poller\<close>

text \<open>
  What one turn of the loop meets outside the program: a transport fault (or none) for
  each of its three store calls, the reading of the clock, and whether a consumer takes a
  timer off a full channel before the three seconds of the \<open>select\<close> are over.
\<close>

record Env =
  pop_fault :: "string option"
  now :: Time
  zadd_fault :: "string option"
  get_fault :: "string option"
  recv_ready :: bool

text \<open>
  The \<open>select\<close> at the end of the loop body: the send goes through when the buffer has
  room, or when a consumer receives in time (it takes the oldest timer, which is the new one
  when the channel is unbuffered); otherwise \<open>time.After\<close> fires and the timer is not sent.
\<close>

definition select_send :: "bool \<Rightarrow> Timer \<Rightarrow> Chan \<Rightarrow> Chan \<times> event list" where
  "select_send ready t c =
     (if length (buf c) < cap c then (c\<lparr>buf := buf c @ [t]\<rparr>, [Send t])
      else if ready then (c\<lparr>buf := tl (buf c @ [t])\<rparr>, [Send t])
      else (c, [After_fired (3 * Second),
                Log_Error ''failed to put into timer: notify channel overflow'']))"

text \<open>One turn of the \<open>for\<close> loop of \<open>background\<close>.\<close>

definition background_iter :: "Env \<Rightarrow> Manager \<Rightarrow> Manager \<times> event list" where
  "background_iter e mgr =
     (case redis_BZPopMin (pop_fault e) Minute (name mgr) (redis mgr) of
        (Inl err, r1) \<Rightarrow>
          (mgr\<lparr>redis := r1\<rparr>,
           Call (BZPopMin Minute (name mgr)) #
           (if err \<noteq> RedisNil
            then [Log_Warn (''failed to bzpopmin '' @ name mgr @ '': '' @ err_string err),
                  Sleep (3 * Second)]
            else []))
      | (Inr (key, member, score), r1) \<Rightarrow>
          (case member of
             MOther ty \<Rightarrow>
               (mgr\<lparr>redis := r1\<rparr>,
                [Call (BZPopMin Minute (name mgr)),
                 Log_Warn (''failed to bzpopmin '' @ name mgr @ '': member type is '' @ ty)])
           | MString tid \<Rightarrow>
               (let deadline = int64 score;
                    delta = wrap64 (deadline - Unix (now e))
                in if delta > 0
                   then
                     (let (zerr, r2) =
                            redis_ZAdd (zadd_fault e) (name mgr) tid (float64 deadline) r1
                      in (mgr\<lparr>redis := r2\<rparr>,
                          [Call (BZPopMin Minute (name mgr)),
                           Call (ZAdd (name mgr) tid (float64 deadline)),
                           Sleep (wrap64 (delta * Second))]))
                   else
                     (case redis_Get (get_fault e) (ContextKey mgr tid) r1 of
                        (Inl err, r2) \<Rightarrow>
                          (mgr\<lparr>redis := r2\<rparr>,
                           [Call (BZPopMin Minute (name mgr)),
                            Call (Get (ContextKey mgr tid)),
                            Log_Warn (''failed to get timer context: '' @ err_string err)])
                      | (Inr ctx, r2) \<Rightarrow>
                          (let t = \<lparr>ID = tid, Ctx = ctx, Deadline = time_Unix deadline 0\<rparr>;
                               (c', evs) = select_send (recv_ready e) t (notifys mgr)
                           in (mgr\<lparr>redis := r2, notifys := c'\<rparr>,
                               [Call (BZPopMin Minute (name mgr)),
                                Call (Get (ContextKey mgr tid))] @ evs))))))"

text \<open>
  The loop has no exit: it runs one turn for each step of the environment, as many as
  there are.
\<close>

fun background :: "Env list \<Rightarrow> Manager \<Rightarrow> Manager \<times> event list" where
  "background [] mgr = (mgr, [])"
| "background (e # es) mgr =
     (let (m1, evs1) = background_iter e mgr;
          (m2, evs2) = background es m1
      in (m2, evs1 @ evs2))"

section \<open>Notions used by the properties\<close>

text \<open>
  \<open>diff_ns t u\<close> is the exact distance from \<open>u\<close> to \<open>t\<close> in nanoseconds, without the
  limits of a \<open>Duration\<close>.
\<close>

definition diff_ns :: "Time \<Rightarrow> Time \<Rightarrow> int" where
  "diff_ns t u = (sec t - sec u) * 1000000000 + (nsec t - nsec u)"

text \<open>The integers that are \<open>float64\<close> values.\<close>

definition representable :: "int \<Rightarrow> bool" where
  "representable x \<longleftrightarrow> \<bar>x\<bar> \<le> 2 ^ 53 \<or> 2 ^ (bit_length \<bar>x\<bar> - 53) dvd x"

text \<open>None of the first \<open>n\<close> commands of a batch meets a fault.\<close>

definition no_fault :: "nat \<Rightarrow> string option list \<Rightarrow> bool" where
  "no_fault n faults \<longleftrightarrow> list_all (\<lambda>f. f = None) (take n faults)"

text \<open>The store once the pop has taken member \<open>tid\<close> out of the manager's sorted set.\<close>

definition popped :: "Manager \<Rightarrow> string \<Rightarrow> Redis" where
  "popped mgr tid =
     (redis mgr)\<lparr>zsets :=
        (zsets (redis mgr))(name mgr := zdelete tid (zsets (redis mgr) (name mgr)))\<rparr>"

text \<open>The store commands among the events, in the order they were sent.\<close>

fun store_cmds :: "event list \<Rightarrow> cmd list" where
  "store_cmds [] = []"
| "store_cmds (Call c # evs) = c # store_cmds evs"
| "store_cmds (Pipeline cs # evs) = cs @ store_cmds evs"
| "store_cmds (ev # evs) = store_cmds evs"

text \<open>The timers sent on the notification channel among the events.\<close>

fun sent :: "event list \<Rightarrow> Timer list" where
  "sent [] = []"
| "sent (Send t # evs) = t # sent evs"
| "sent (ev # evs) = sent evs"




section \<open>Concrete stores, managers and timers\<close>

definition empty_store :: Redis where
  "empty_store = \<lparr>zsets = (\<lambda>key. []), strings = (\<lambda>key. None)\<rparr>"

text \<open>The manager of the package's test: \<open>NewManager("timer_name", 128, redis)\<close>.\<close>

definition test_mgr :: Manager where
  "test_mgr = \<lparr>name = ''timer_name'', redis = empty_store, notifys = \<lparr>buf = [], cap = 128\<rparr>\<rparr>"

definition clock0 :: Time where
  "clock0 = \<lparr>sec = 1700000000, nsec = 0\<rparr>"

text \<open>A timer due in more than 292 years.\<close>

definition far_timer :: Timer where
  "far_timer = \<lparr>ID = ''1'', Ctx = ''ctx1'', Deadline = \<lparr>sec = 11700000000, nsec = 0\<rparr>\<rparr>"

text \<open>A timer with an empty ID, due three and a half seconds after \<open>clock0\<close>.\<close>

definition anon_timer :: Timer where
  "anon_timer = \<lparr>ID = [], Ctx = ''ctx'', Deadline = \<lparr>sec = 1700000003, nsec = 500000000\<rparr>\<rparr>"

text \<open>
  The first timer of the package's test, registered half a millisecond before the end of a
  second with a timeout of three seconds, and the manager once it is registered.
\<close>

definition clock_reg :: Time where
  "clock_reg = \<lparr>sec = 1700000000, nsec = 999500000\<rparr>"

definition timer1 :: Timer where
  "timer1 = \<lparr>ID = ''1'', Ctx = ''ctx1'', Deadline = \<lparr>sec = 1700000003, nsec = 999500000\<rparr>\<rparr>"

definition registered_mgr :: Manager where
  "registered_mgr = fst (snd (AddTimer clock_reg [] timer1 test_mgr))"

text \<open>
  Two turns of the poller on a store that answers, with no consumer waiting: the first when
  the clock reads 1700000001.0005, a millisecond after the registration, the second when it
  reads 1700000003.001, after the two seconds that the first turn sleeps.
\<close>

definition env_a :: Env where
  "env_a = \<lparr>pop_fault = None, now = \<lparr>sec = 1700000001, nsec = 500000\<rparr>,
            zadd_fault = None, get_fault = None, recv_ready = False\<rparr>"

definition env_b :: Env where
  "env_b = \<lparr>pop_fault = None, now = \<lparr>sec = 1700000003, nsec = 1000000\<rparr>,
            zadd_fault = None, get_fault = None, recv_ready = False\<rparr>"

text \<open>The manager with \<open>far_timer\<close> registered, and a turn of the poller at \<open>clock0\<close>.\<close>

definition far_mgr :: Manager where
  "far_mgr = fst (snd (AddTimer clock0 [] far_timer test_mgr))"

definition env0 :: Env where
  "env0 = \<lparr>pop_fault = None, now = clock0,
           zadd_fault = None, get_fault = None, recv_ready = False\<rparr>"

text \<open>A timer whose deadline lies \<open>2 ^ 53 + 1\<close> seconds before the epoch, registered.\<close>

definition old_timer :: Timer where
  "old_timer = \<lparr>ID = ''1'', Ctx = ''ctx1'', Deadline = \<lparr>sec = - 9007199254740993, nsec = 0\<rparr>\<rparr>"

definition old_mgr :: Manager where
  "old_mgr = fst (snd (AddTimer clock0 [] old_timer test_mgr))"

text \<open>The registered manager with an unbuffered notification channel.\<close>

definition sync_mgr :: Manager where
  "sync_mgr = registered_mgr\<lparr>notifys := \<lparr>buf = [], cap = 0\<rparr>\<rparr>"

text \<open>A timer due 9.0005 seconds after \<open>clock0\<close>.\<close>

definition frac_timer :: Timer where
  "frac_timer = \<lparr>ID = ''1'', Ctx = ''ctx1'', Deadline = \<lparr>sec = 1700000009, nsec = 500000\<rparr>\<rparr>"








section \<open>Facts about integers, time and the store\<close>

lemma wrap64_id: "in_int64 x \<Longrightarrow> wrap64 x = x"
  by (simp add: wrap64_def in_int64_def)

lemma After_iff_diff:
  "valid_Time t \<Longrightarrow> valid_Time u \<Longrightarrow> After t u \<longleftrightarrow> 0 < diff_ns t u"
  unfolding After_def valid_Time_def diff_ns_def
  by (cases "sec t = sec u"; cases "sec t < sec u") auto

lemma Sub_exact:
  "minDuration \<le> diff_ns t u \<Longrightarrow> diff_ns t u \<le> maxDuration \<Longrightarrow> Sub t u = diff_ns t u"
  by (simp add: Sub_def diff_ns_def Second_def Let_def)



text \<open>
  What \<open>Set\<close> leaves at its key: the value, with the expiration cut to whole milliseconds
  when it is at least one millisecond, and with no expiry when it is not positive.
\<close>

lemma set_ex_value: "\<exists>ttl. strings (set_ex key v exp r) key = Some (v, ttl)"
  by (simp add: set_ex_def usePrecise_def formatMs_def formatSec_def Millisecond_def)


lemma set_ex_zsets: "zsets (set_ex key v exp r) = zsets r"
  by (simp add: set_ex_def usePrecise_def formatMs_def formatSec_def Millisecond_def)

lemma set_ex_ttl:
  assumes "Millisecond \<le> exp"
  shows "strings (set_ex key v exp r) key = Some (v, Some (exp div Millisecond * Millisecond))"
proof (cases "usePrecise exp")
  case True
  then show ?thesis
    using assms by (simp add: set_ex_def formatMs_def Millisecond_def)
next
  case False
  then have s: "Second dvd exp"
    by (simp add: usePrecise_def dvd_eq_mod_eq_0)
  have "Millisecond dvd Second"
    by (simp add: Millisecond_def Second_def)
  then have m: "Millisecond dvd exp"
    using s by (rule dvd_trans)
  have "exp div Second * Second = exp" "exp div Millisecond * Millisecond = exp"
    using s m by simp_all
  moreover have "0 < exp"
    using assms by (simp add: Millisecond_def)
  ultimately show ?thesis
    using False by (simp add: set_ex_def formatSec_def)
qed

lemma set_ex_no_expiry:
  "exp \<le> 0 \<Longrightarrow> strings (set_ex key v exp r) key = Some (v, None)"
  by (simp add: set_ex_def usePrecise_def formatMs_def formatSec_def Millisecond_def)

text \<open>
  An integer that is a \<open>float64\<close> value converts to itself.
\<close>

lemma float64_representable: "representable x \<Longrightarrow> float64 x = x"
proof (cases "\<bar>x\<bar> \<le> 2 ^ 53")
  case True
  then show ?thesis by (simp add: float64_def)
next
  case False
  assume "representable x"
  with False have dvd: "2 ^ (bit_length \<bar>x\<bar> - 53) dvd \<bar>x\<bar>"
    by (simp add: representable_def)
  define u :: int where "u = 2 ^ (bit_length \<bar>x\<bar> - 53)"
  have upos: "0 < u" by (simp add: u_def)
  have "\<bar>x\<bar> mod u = 0" using dvd by (simp add: u_def)
  moreover have "\<bar>x\<bar> div u * u = \<bar>x\<bar>" using dvd by (simp add: u_def)
  ultimately have "round_half_even \<bar>x\<bar> u = \<bar>x\<bar>"
    using upos by (simp add: round_half_even_def Let_def)
  then have "float64 x = sgn x * \<bar>x\<bar>"
    using False by (simp add: float64_def u_def)
  then show ?thesis by (simp add: mult_sgn_abs)
qed

lemma float64_old: "float64 (- 9007199254740993) = - 9007199254740992"
  by code_simp

lemma Exec_error_iff:
  "fst (Exec faults cmds r) = None \<longleftrightarrow> no_fault (length cmds) faults"
proof (induction faults cmds r rule: Exec.induct)
  case (4 msg faults c cs r)
  then show ?case by (simp add: no_fault_def split: prod.splits)
qed (simp_all add: no_fault_def)

lemma Exec_no_fault:
  "no_fault (length cmds) faults \<Longrightarrow> Exec faults cmds r = (None, fold apply_cmd cmds r)"
  by (induction faults cmds r rule: Exec.induct) (simp_all add: no_fault_def)

lemma Exec_no_fault2:
  "no_fault 2 faults \<Longrightarrow> Exec faults [c1, c2] r = (None, apply_cmd c2 (apply_cmd c1 r))"
  using Exec_no_fault [of "[c1, c2]" faults r] by (simp add: numeral_2_eq_2)

lemma zdelete_idem: "zdelete m (zdelete m zs) = zdelete m zs"
  by (simp add: zdelete_def)

lemma zdelete_absent: "m \<notin> fst ` set (zdelete m zs)"
  by (auto simp: zdelete_def)

lemma zdelete_missing: "m \<notin> fst ` set zs \<Longrightarrow> zdelete m zs = zs"
  unfolding zdelete_def by (induction zs) auto


lemma zadd_popped: "zadd (name mgr) tid s (popped mgr tid) = zadd (name mgr) tid s (redis mgr)"
  by (simp add: zadd_def popped_def zdelete_idem)

lemma Get_popped:
  "fst (redis_Get fault k (popped mgr tid)) =
     (case fault of
        Some msg \<Rightarrow> Inl (RedisErr msg)
      | None \<Rightarrow>
          (case strings (redis mgr) k of
             None \<Rightarrow> Inl RedisNil
           | Some (v, exp) \<Rightarrow> Inr v))"
  by (simp add: redis_Get_def popped_def split: option.splits)

lemma select_send_cmds: "store_cmds (snd (select_send ready t c)) = []"
  by (simp add: select_send_def)


section \<open>Registering and cancelling\<close>

text \<open>
  The batch that \<open>AddTimer\<close> sends, the expiration in it, and the store it leaves.
\<close>

lemma AddTimer_events:
  "snd (snd (AddTimer nw faults t mgr)) =
     [Pipeline [Set (ContextKey mgr (ID t)) (Ctx t)
                  (if After (Deadline t) nw then wrap64 (Minute * 10 + Sub (Deadline t) nw)
                   else Minute * 10),
                ZAdd (name mgr) (ID t) (float64 (Unix (Deadline t)))]]"
  by (simp add: AddTimer_def Let_def split: prod.splits)

lemma AddTimer_exp:
  assumes "valid_Time (Deadline t)" "valid_Time nw"
    and "diff_ns (Deadline t) nw \<le> maxDuration - 10 * Minute"
  shows "(if After (Deadline t) nw then wrap64 (Minute * 10 + Sub (Deadline t) nw)
          else Minute * 10) = max 0 (diff_ns (Deadline t) nw) + 10 * Minute"
proof (cases "After (Deadline t) nw")
  case True
  then have pos: "0 < diff_ns (Deadline t) nw"
    using assms After_iff_diff by blast
  have le: "diff_ns (Deadline t) nw \<le> maxDuration"
    using assms(3) by (simp add: Minute_def Second_def)
  have "Sub (Deadline t) nw = diff_ns (Deadline t) nw"
    using pos le by (intro Sub_exact) (simp_all add: minDuration_def)
  moreover have "in_int64 (Minute * 10 + diff_ns (Deadline t) nw)"
    using pos assms(3) by (simp add: in_int64_def maxDuration_def Minute_def Second_def)
  ultimately show ?thesis
    using True pos by (simp add: wrap64_id)
next
  case False
  then have "\<not> 0 < diff_ns (Deadline t) nw"
    using assms After_iff_diff by blast
  then show ?thesis
    using False by simp
qed

text \<open>
  The expiration that \<open>AddTimer\<close> passes is never positive and below ten minutes: it is ten
  minutes or more, or the addition has wrapped around and it is negative.
\<close>

lemma AddTimer_exp_cases:
  assumes "valid_Time (Deadline t)" "valid_Time nw"
  shows "(if After (Deadline t) nw then wrap64 (Minute * 10 + Sub (Deadline t) nw)
          else Minute * 10) < 0
         \<or> Minute * 10 \<le> (if After (Deadline t) nw then wrap64 (Minute * 10 + Sub (Deadline t) nw)
                           else Minute * 10)"
proof (cases "After (Deadline t) nw")
  case False
  then show ?thesis by simp
next
  case True
  then have pos: "0 < diff_ns (Deadline t) nw"
    using assms After_iff_diff by blast
  define x where "x = Sub (Deadline t) nw"
  have x: "0 < x" "x \<le> 2 ^ 63 - 1"
    using pos
    by (simp_all add: x_def Sub_def diff_ns_def Second_def Let_def minDuration_def maxDuration_def)
  show ?thesis
  proof (cases "in_int64 (Minute * 10 + x)")
    case True
    then have "wrap64 (Minute * 10 + x) = Minute * 10 + x"
      by (rule wrap64_id)
    then show ?thesis
      using \<open>After (Deadline t) nw\<close> x by (simp add: x_def)
  next
    case False
    then have big: "2 ^ 63 \<le> Minute * 10 + x"
      using x by (simp add: in_int64_def Minute_def Second_def)
    have "(Minute * 10 + x + 2 ^ 63) mod 2 ^ 64 = (Minute * 10 + x + 2 ^ 63 - 2 ^ 64) mod 2 ^ 64"
      by (rule minus_mod_self2 [symmetric])
    also have "\<dots> = Minute * 10 + x + 2 ^ 63 - 2 ^ 64"
      using big x by (intro mod_pos_pos_trivial) (simp_all add: Minute_def Second_def)
    finally have "wrap64 (Minute * 10 + x) = Minute * 10 + x - 2 ^ 64"
      by (simp add: wrap64_def)
    then have "wrap64 (Minute * 10 + x) < 0"
      using x by (simp add: Minute_def Second_def)
    then show ?thesis
      using \<open>After (Deadline t) nw\<close> by (simp add: x_def)
  qed
qed

lemma AddTimer_ok:
  assumes "no_fault 2 faults"
  shows "fst (snd (AddTimer nw faults t mgr)) =
      mgr\<lparr>redis := zadd (name mgr) (ID t) (float64 (Unix (Deadline t)))
         (set_ex (ContextKey mgr (ID t)) (Ctx t)
            (if After (Deadline t) nw then wrap64 (Minute * 10 + Sub (Deadline t) nw)
             else Minute * 10) (redis mgr))\<rparr>"
  using assms by (simp add: AddTimer_def Let_def Exec_no_fault2)

lemma AddTimer_error_iff:
  "fst (AddTimer nw faults t mgr) = None \<longleftrightarrow> no_fault 2 faults"
proof -
  let ?cmds = "[Set (ContextKey mgr (ID t)) (Ctx t)
                  (if After (Deadline t) nw then wrap64 (Minute * 10 + Sub (Deadline t) nw)
                   else Minute * 10),
                ZAdd (name mgr) (ID t) (float64 (Unix (Deadline t)))]"
  have "fst (AddTimer nw faults t mgr) = None \<longleftrightarrow> fst (Exec faults ?cmds (redis mgr)) = None"
    by (simp add: AddTimer_def Let_def split: prod.splits option.splits)
  then show ?thesis
    by (simp add: Exec_error_iff numeral_2_eq_2)
qed

lemma DelTimer_store:
  assumes "no_fault 2 faults"
  shows "DelTimer faults tid mgr =
     (None, mgr\<lparr>redis := del (ContextKey mgr tid) (zrem (name mgr) tid (redis mgr))\<rparr>,
      [Pipeline [ZRem (name mgr) tid, Del (ContextKey mgr tid)]])"
  using assms by (simp add: DelTimer_def Let_def Exec_no_fault2)

section \<open>The turns of the poller\<close>



lemma iter_not_due:
  assumes "pop_fault e = None" "zmin (zsets (redis mgr) (name mgr)) = Some (tid, s)"
    and "0 < wrap64 (int64 s - Unix (now e))"
  shows "background_iter e mgr =
     (mgr\<lparr>redis := snd (redis_ZAdd (zadd_fault e) (name mgr) tid (float64 (int64 s))
                           (popped mgr tid))\<rparr>,
      [Call (BZPopMin Minute (name mgr)),
       Call (ZAdd (name mgr) tid (float64 (int64 s))),
       Sleep (wrap64 (wrap64 (int64 s - Unix (now e)) * Second))])"
  using assms
  by (simp add: background_iter_def redis_BZPopMin_def popped_def Let_def split: prod.splits)

lemma iter_get_failed:
  assumes "pop_fault e = None" "zmin (zsets (redis mgr) (name mgr)) = Some (tid, s)"
    and "wrap64 (int64 s - Unix (now e)) \<le> 0"
    and "fst (redis_Get (get_fault e) (ContextKey mgr tid) (popped mgr tid)) = Inl err"
  shows "background_iter e mgr =
     (mgr\<lparr>redis := popped mgr tid\<rparr>,
      [Call (BZPopMin Minute (name mgr)),
       Call (Get (ContextKey mgr tid)),
       Log_Warn (''failed to get timer context: '' @ err_string err)])"
  using assms
  by (auto simp add: background_iter_def redis_BZPopMin_def redis_Get_def popped_def Let_def
      split: prod.splits option.splits sum.splits)

lemma iter_due:
  assumes "pop_fault e = None" "zmin (zsets (redis mgr) (name mgr)) = Some (tid, s)"
    and "wrap64 (int64 s - Unix (now e)) \<le> 0"
    and "fst (redis_Get (get_fault e) (ContextKey mgr tid) (popped mgr tid)) = Inr ctx"
  shows "background_iter e mgr =
     (mgr\<lparr>redis := popped mgr tid,
          notifys := fst (select_send (recv_ready e)
                       \<lparr>ID = tid, Ctx = ctx, Deadline = time_Unix (int64 s) 0\<rparr> (notifys mgr))\<rparr>,
      [Call (BZPopMin Minute (name mgr)), Call (Get (ContextKey mgr tid))] @
      snd (select_send (recv_ready e)
             \<lparr>ID = tid, Ctx = ctx, Deadline = time_Unix (int64 s) 0\<rparr> (notifys mgr)))"
  using assms
  by (auto simp add: background_iter_def redis_BZPopMin_def redis_Get_def popped_def Let_def
      split: prod.splits option.splits sum.splits)

lemma iter_name: "name (fst (background_iter e mgr)) = name mgr"
  by (auto simp add: background_iter_def redis_BZPopMin_def redis_Get_def redis_ZAdd_def Let_def
      split: prod.splits option.splits sum.splits Member.splits)

lemma iter_starts_with_pop:
  "\<exists>rest. snd (background_iter e mgr) = Call (BZPopMin Minute (name mgr)) # rest"
  by (auto simp add: background_iter_def redis_BZPopMin_def redis_Get_def redis_ZAdd_def Let_def
      split: prod.splits option.splits sum.splits Member.splits)

lemma background_Cons:
  "background (e # es) mgr =
     (fst (background es (fst (background_iter e mgr))),
      snd (background_iter e mgr) @ snd (background es (fst (background_iter e mgr))))"
  by (simp split: prod.splits)

declare background.simps(2) [simp del]

text \<open>
  After any turn the loop is back at the blocking pop.
\<close>

lemma background_back_to_pop:
  assumes "es \<noteq> []"
  shows "\<exists>rest. snd (background (e # es) mgr) =
           snd (background_iter e mgr) @ Call (BZPopMin Minute (name mgr)) # rest"
proof -
  obtain e' es' where es: "es = e' # es'"
    using assms by (cases es) auto
  obtain rest where
    "snd (background_iter e' (fst (background_iter e mgr))) =
       Call (BZPopMin Minute (name (fst (background_iter e mgr)))) # rest"
    using iter_starts_with_pop by blast
  then have "snd (background es (fst (background_iter e mgr))) =
       Call (BZPopMin Minute (name mgr)) #
       (rest @ snd (background es' (fst (background_iter e' (fst (background_iter e mgr))))))"
    unfolding es by (simp add: background_Cons iter_name)
  then show ?thesis
    by (simp add: background_Cons)
qed





text \<open>
  The poller compares whole seconds: while the score of the popped member is later than
  the seconds of the clock, nothing is sent.
\<close>

lemma iter_no_send_before_score:
  assumes "pop_fault e = None" and "zmin (zsets (redis mgr) (name mgr)) = Some (tid, s)"
    and "in_int64 s" and "0 \<le> Unix (now e)" and "Unix (now e) < s"
  shows "sent (snd (background_iter e mgr)) = [] \<and> notifys (fst (background_iter e mgr)) = notifys mgr"
proof -
  have "in_int64 (s - Unix (now e))"
    using assms(3-5) by (simp add: in_int64_def)
  then have "0 < wrap64 (int64 s - Unix (now e))"
    using assms(3,5) by (simp add: wrap64_id int64_def)
  from iter_not_due [OF assms(1,2) this] show ?thesis by simp
qed

section \<open>The records of a registration\<close>

























section \<open>The concrete managers, evaluated\<close>

lemma NewManager_test: "NewManager ''timer_name'' 128 empty_store = Inr test_mgr"
  by (simp add: NewManager_def test_mgr_def)

lemma registered_mgr_eq:
  "registered_mgr = \<lparr>name = ''timer_name'',
      redis = \<lparr>zsets = (\<lambda>key. [])(''timer_name'' := [(''1'', 1700000003)]),
               strings = (\<lambda>key. None)(''timer_name_1'' \<mapsto> (''ctx1'', Some 603000000000))\<rparr>,
      notifys = \<lparr>buf = [], cap = 128\<rparr>\<rparr>"
  by (simp add: registered_mgr_def AddTimer_def Let_def timer1_def clock_reg_def test_mgr_def
      empty_store_def ContextKey_def After_def Sub_def wrap64_def Minute_def Second_def
      minDuration_def maxDuration_def float64_def Unix_def wrap64_def zadd_def set_ex_def usePrecise_def formatMs_def formatSec_def Millisecond_def zdelete_def)

lemma far_mgr_eq:
  "far_mgr = \<lparr>name = ''timer_name'',
      redis = \<lparr>zsets = (\<lambda>key. [])(''timer_name'' := [(''1'', 11700000000)]),
               strings = (\<lambda>key. None)(''timer_name_1'' \<mapsto> (''ctx1'', None))\<rparr>,
      notifys = \<lparr>buf = [], cap = 128\<rparr>\<rparr>"
  by (simp add: far_mgr_def AddTimer_def Let_def far_timer_def clock0_def test_mgr_def
      empty_store_def ContextKey_def After_def Sub_def wrap64_def Minute_def Second_def
      minDuration_def maxDuration_def float64_def Unix_def wrap64_def zadd_def set_ex_def usePrecise_def formatMs_def formatSec_def Millisecond_def zdelete_def)

lemma old_mgr_eq:
  "old_mgr = \<lparr>name = ''timer_name'',
      redis = \<lparr>zsets = (\<lambda>key. [])(''timer_name'' := [(''1'', - 9007199254740992)]),
               strings = (\<lambda>key. None)(''timer_name_1'' \<mapsto> (''ctx1'', Some 600000000000))\<rparr>,
      notifys = \<lparr>buf = [], cap = 128\<rparr>\<rparr>"
  by (simp add: old_mgr_def AddTimer_def Let_def old_timer_def clock0_def test_mgr_def
      empty_store_def ContextKey_def After_def Sub_def wrap64_def Minute_def Second_def
      minDuration_def maxDuration_def Unix_def wrap64_def zadd_def set_ex_def usePrecise_def formatMs_def formatSec_def Millisecond_def zdelete_def float64_old)

lemma sync_mgr_eq:
  "sync_mgr = \<lparr>name = ''timer_name'',
      redis = \<lparr>zsets = (\<lambda>key. [])(''timer_name'' := [(''1'', 1700000003)]),
               strings = (\<lambda>key. None)(''timer_name_1'' \<mapsto> (''ctx1'', Some 603000000000))\<rparr>,
      notifys = \<lparr>buf = [], cap = 0\<rparr>\<rparr>"
  by (simp add: sync_mgr_def registered_mgr_eq)

lemma registered_pop:
  "zmin (zsets (redis registered_mgr) (name registered_mgr)) = Some (''1'', 1700000003)"
  by (simp add: registered_mgr_eq)

lemma far_pop: "zmin (zsets (redis far_mgr) (name far_mgr)) = Some (''1'', 11700000000)"
  by (simp add: far_mgr_eq)

lemma old_pop: "zmin (zsets (redis old_mgr) (name old_mgr)) = Some (''1'', - 9007199254740992)"
  by (simp add: old_mgr_eq)

lemma env_b_due: "wrap64 (int64 1700000003 - Unix (now env_b)) \<le> 0"
  by (simp add: wrap64_def int64_def in_int64_def Unix_def wrap64_def env_b_def)

lemma env_a_delta: "0 < 1700000003 - Unix (now env_a)" "1700000003 - Unix (now env_a) \<le> 9223372036"
  by (simp_all add: env_a_def Unix_def wrap64_def)







section \<open>The claims\<close>

text \<open>
  Claim C1 says that no notification is delivered before its timer's deadline. The code
  breaks it for a deadline that is not on a whole second: \<open>AddTimer\<close> stores the deadline's
  whole seconds as the score and the poller compares the score with the whole seconds of its
  clock. Here the first timer of the package's test is registered at 1700000000.9995 with a
  timeout of three seconds, so its deadline is 1700000003.9995; the poller pops it a
  millisecond later, at 1700000001.0005, puts it back and sleeps two seconds, pops it again at
  1700000003.001 and sends it, 0.9985 seconds before the deadline and 2.0015 seconds after
  the registration.
\<close>

theorem C1_premature_delivery:
  "fst (AddTimer clock_reg [] timer1 test_mgr) = None
   \<and> snd (background [env_a, env_b] (fst (snd (AddTimer clock_reg [] timer1 test_mgr)))) =
        [Call (BZPopMin 60000000000 ''timer_name''),
         Call (ZAdd ''timer_name'' ''1'' 1700000003),
         Sleep 2000000000,
         Call (BZPopMin 60000000000 ''timer_name''),
         Call (Get ''timer_name_1''),
         Send \<lparr>ID = ''1'', Ctx = ''ctx1'', Deadline = \<lparr>sec = 1700000003, nsec = 0\<rparr>\<rparr>]
   \<and> Before (now env_b) (Deadline timer1)
   \<and> diff_ns (Deadline timer1) clock_reg = 3 * Second
   \<and> diff_ns (now env_b) clock_reg = 2001500000"
proof -
  have a: "fst (AddTimer clock_reg [] timer1 test_mgr) = None"
    by (simp add: AddTimer_error_iff no_fault_def)
  have pa: "pop_fault env_a = None" "zadd_fault env_a = None"
    and pb: "pop_fault env_b = None" "get_fault env_b = None"
    by (simp_all add: env_a_def env_b_def)
  have pos: "0 < wrap64 (int64 1700000003 - Unix (now env_a))"
    by (simp add: wrap64_def int64_def in_int64_def Unix_def wrap64_def env_a_def)
  have one: "background_iter env_a registered_mgr =
      (registered_mgr,
       [Call (BZPopMin 60000000000 ''timer_name''),
        Call (ZAdd ''timer_name'' ''1'' 1700000003),
        Sleep 2000000000])"
    unfolding iter_not_due [OF pa(1) registered_pop pos]
    by (simp add: pa redis_ZAdd_def zadd_popped)
       (simp add: registered_mgr_eq zadd_def zdelete_def wrap64_def int64_def in_int64_def
          float64_def Unix_def wrap64_def env_a_def Minute_def Second_def)
  have got: "fst (redis_Get (get_fault env_b) (ContextKey registered_mgr ''1'')
                   (popped registered_mgr ''1'')) = Inr ''ctx1''"
    by (simp add: Get_popped pb registered_mgr_eq ContextKey_def)
  have two: "snd (background_iter env_b registered_mgr) =
       [Call (BZPopMin 60000000000 ''timer_name''),
        Call (Get ''timer_name_1''),
        Send \<lparr>ID = ''1'', Ctx = ''ctx1'', Deadline = \<lparr>sec = 1700000003, nsec = 0\<rparr>\<rparr>]"
    unfolding iter_due [OF pb(1) registered_pop env_b_due got]
    by (simp add: select_send_def registered_mgr_eq time_Unix_def unixToInternal_def wrap64_def int64_def in_int64_def
        ContextKey_def Minute_def Second_def)
  have tr: "snd (background [env_a, env_b] registered_mgr) =
        [Call (BZPopMin 60000000000 ''timer_name''),
         Call (ZAdd ''timer_name'' ''1'' 1700000003),
         Sleep 2000000000,
         Call (BZPopMin 60000000000 ''timer_name''),
         Call (Get ''timer_name_1''),
         Send \<lparr>ID = ''1'', Ctx = ''ctx1'', Deadline = \<lparr>sec = 1700000003, nsec = 0\<rparr>\<rparr>]"
    by (simp add: background_Cons one two)
  have tm: "Before (now env_b) (Deadline timer1)"
    "diff_ns (Deadline timer1) clock_reg = 3 * Second"
    "diff_ns (now env_b) clock_reg = 2001500000"
    by (simp_all add: Before_def diff_ns_def env_b_def timer1_def clock_reg_def Second_def)
  show ?thesis
    using a tr tm by (simp add: registered_mgr_def)
qed

text \<open>
  Claim C2, as amended. When the deadline is less than \<open>2 ^ 63\<close> nanoseconds minus ten minutes
  (about 292 years) after the reading of the clock, the expiration that \<open>AddTimer\<close> passes to
  \<open>Set\<close> for the context record at \<open>ContextKey(ID)\<close> is \<open>max(0, Deadline - now)\<close> plus ten
  minutes, that is 600 seconds (a deadline that is not in the future gives ten minutes), and
  the time to live of the record written is that expiration cut to whole milliseconds.
\<close>

theorem C2_ttl_in_range:
  assumes "valid_Time (Deadline t)" and "valid_Time nw"
    and "diff_ns (Deadline t) nw \<le> maxDuration - 10 * Minute"
  shows "snd (snd (AddTimer nw faults t mgr)) =
           [Pipeline [Set (ContextKey mgr (ID t)) (Ctx t)
                        (max 0 (diff_ns (Deadline t) nw) + 10 * Minute),
                      ZAdd (name mgr) (ID t) (float64 (Unix (Deadline t)))]]
         \<and> (no_fault 2 faults \<longrightarrow>
              strings (redis (fst (snd (AddTimer nw faults t mgr)))) (ContextKey mgr (ID t)) =
                Some (Ctx t,
                      Some ((max 0 (diff_ns (Deadline t) nw) + 600 * Second) div Millisecond
                            * Millisecond)))"
proof -
  let ?ttl = "max 0 (diff_ns (Deadline t) nw) + 10 * Minute"
  have exp: "(if After (Deadline t) nw then wrap64 (Minute * 10 + Sub (Deadline t) nw)
              else Minute * 10) = ?ttl"
    using assms by (rule AddTimer_exp)
  have ev: "snd (snd (AddTimer nw faults t mgr)) =
           [Pipeline [Set (ContextKey mgr (ID t)) (Ctx t) ?ttl,
                      ZAdd (name mgr) (ID t) (float64 (Unix (Deadline t)))]]"
    using exp by (simp only: AddTimer_events)
  have ms: "Millisecond \<le> ?ttl"
    by (simp add: Millisecond_def Minute_def Second_def)
  have eq: "?ttl = max 0 (diff_ns (Deadline t) nw) + 600 * Second"
    by (simp add: Minute_def)
  have st: "strings (redis (fst (snd (AddTimer nw faults t mgr)))) (ContextKey mgr (ID t)) =
                Some (Ctx t,
                      Some ((max 0 (diff_ns (Deadline t) nw) + 600 * Second) div Millisecond
                            * Millisecond))"
    if "no_fault 2 faults"
  proof -
    have "strings (redis (fst (snd (AddTimer nw faults t mgr)))) (ContextKey mgr (ID t)) =
            strings (set_ex (ContextKey mgr (ID t)) (Ctx t) ?ttl (redis mgr)) (ContextKey mgr (ID t))"
      unfolding AddTimer_ok [OF that] exp by (simp add: zadd_def)
    also have "\<dots> = Some (Ctx t, Some (?ttl div Millisecond * Millisecond))"
      using ms by (rule set_ex_ttl)
    finally show ?thesis
      by (simp only: eq)
  qed
  show ?thesis using ev st by blast
qed

text \<open>
  The amended claim C2 at a timer due 9.0005 seconds after the clock's reading: the
  expiration passed is 609.0005 seconds and the record lives 609 seconds.
\<close>

theorem C2_ttl_in_range_witness:
  "valid_Time (Deadline frac_timer) \<and> valid_Time clock0
   \<and> diff_ns (Deadline frac_timer) clock0 \<le> maxDuration - 10 * Minute
   \<and> no_fault 2 []
   \<and> max 0 (diff_ns (Deadline frac_timer) clock0) + 10 * Minute = 609000500000
   \<and> snd (snd (AddTimer clock0 [] frac_timer test_mgr)) =
        [Pipeline [Set ''timer_name_1'' ''ctx1'' 609000500000,
                   ZAdd ''timer_name'' ''1'' 1700000009]]
   \<and> strings (redis (fst (snd (AddTimer clock0 [] frac_timer test_mgr)))) ''timer_name_1'' =
        Some (''ctx1'', Some 609000000000)"
  using C2_ttl_in_range [of frac_timer clock0 "[]" test_mgr]
  by (simp add: valid_Time_def unixToInternal_def in_int64_def diff_ns_def frac_timer_def
      clock0_def test_mgr_def maxDuration_def Minute_def Second_def Millisecond_def
      no_fault_def ContextKey_def float64_def Unix_def wrap64_def)

text \<open>
  Claim C2 as stated fails twice. For a timer due in more than 292 years \<open>Sub\<close> stops at
  the largest \<open>Duration\<close>, adding ten minutes to it wraps around, the expiration passed to
  \<open>Set\<close> is negative and the record is written with no expiry, not with the 10000000600
  seconds of the claim. For a timer due in 9.0005 seconds the record lives 609 seconds, not the
  609.0005 of the claim.
\<close>

theorem C2_ttl_counterexample:
  "valid_Time (Deadline far_timer) \<and> valid_Time (Deadline frac_timer) \<and> valid_Time clock0
   \<and> max 0 (diff_ns (Deadline far_timer) clock0) + 10 * Minute = 10000000600000000000
   \<and> snd (snd (AddTimer clock0 [] far_timer test_mgr)) =
        [Pipeline [Set ''timer_name_1'' ''ctx1'' (- 9223371436854775809),
                   ZAdd ''timer_name'' ''1'' 11700000000]]
   \<and> strings (redis (fst (snd (AddTimer clock0 [] far_timer test_mgr)))) ''timer_name_1'' =
        Some (''ctx1'', None)
   \<and> max 0 (diff_ns (Deadline frac_timer) clock0) + 10 * Minute = 609000500000
   \<and> strings (redis (fst (snd (AddTimer clock0 [] frac_timer test_mgr)))) ''timer_name_1'' =
        Some (''ctx1'', Some 609000000000)"
proof -
  have "strings (redis far_mgr) ''timer_name_1'' = Some (''ctx1'', None)"
    by (simp add: far_mgr_eq)
  then have st: "strings (redis (fst (snd (AddTimer clock0 [] far_timer test_mgr)))) ''timer_name_1'' =
        Some (''ctx1'', None)"
    by (simp only: far_mgr_def)
  have ev: "snd (snd (AddTimer clock0 [] far_timer test_mgr)) =
        [Pipeline [Set ''timer_name_1'' ''ctx1'' (- 9223371436854775809),
                   ZAdd ''timer_name'' ''1'' 11700000000]]"
    unfolding AddTimer_events
    by (simp add: far_timer_def clock0_def test_mgr_def After_def Sub_def wrap64_def
        maxDuration_def minDuration_def Minute_def Second_def ContextKey_def float64_def Unix_def)
  have fr: "strings (redis (fst (snd (AddTimer clock0 [] frac_timer test_mgr)))) ''timer_name_1'' =
        Some (''ctx1'', Some 609000000000)"
    by (simp add: AddTimer_def Let_def frac_timer_def clock0_def test_mgr_def empty_store_def
        ContextKey_def After_def Sub_def wrap64_def Minute_def Second_def Millisecond_def
        minDuration_def maxDuration_def float64_def Unix_def zadd_def set_ex_def usePrecise_def
        formatMs_def formatSec_def zdelete_def)
  have tm: "valid_Time (Deadline far_timer)" "valid_Time (Deadline frac_timer)" "valid_Time clock0"
    "max 0 (diff_ns (Deadline far_timer) clock0) + 10 * Minute = 10000000600000000000"
    "max 0 (diff_ns (Deadline frac_timer) clock0) + 10 * Minute = 609000500000"
    by (simp_all add: valid_Time_def unixToInternal_def in_int64_def diff_ns_def far_timer_def
        frac_timer_def clock0_def Minute_def Second_def)
  show ?thesis
    using st ev fr tm by simp
qed

text \<open>
  Claim C3, as amended. When the poller pops an entry \<open>(id, deadline)\<close> whose deadline is
  later than the clock's seconds by at most 9223372036 seconds (the most whole seconds a
  \<open>Duration\<close> holds), it sends the upsert of the same \<open>(id, deadline)\<close> with the score
  unchanged, then sleeps exactly \<open>deadline - now\<close> seconds; nothing is sent on the channel in
  this turn, the entry is back in the sorted set when the upsert does not fail, and the loop
  goes on with the blocking pop.
\<close>

theorem C3_requeue_and_sleep:
  assumes "pop_fault e = None" and "zmin (zsets (redis mgr) (name mgr)) = Some (tid, s)"
    and "in_int64 s" and "representable s"
    and "0 < s - Unix (now e)" and "s - Unix (now e) \<le> 9223372036"
  shows "snd (background_iter e mgr) =
           [Call (BZPopMin Minute (name mgr)),
            Call (ZAdd (name mgr) tid s),
            Sleep ((s - Unix (now e)) * Second)]
         \<and> sent (snd (background_iter e mgr)) = []
         \<and> notifys (fst (background_iter e mgr)) = notifys mgr
         \<and> (zadd_fault e = None \<longrightarrow>
              redis (fst (background_iter e mgr)) = zadd (name mgr) tid s (redis mgr)
              \<and> zsets (redis (fst (background_iter e mgr))) (name mgr) =
                  (tid, s) # zdelete tid (zsets (redis mgr) (name mgr)))
         \<and> (es \<noteq> [] \<longrightarrow>
              (\<exists>rest. snd (background (e # es) mgr) =
                 snd (background_iter e mgr) @ Call (BZPopMin Minute (name mgr)) # rest))"
proof -
  have s64: "int64 s = s" using assms(3) by (simp add: int64_def)
  have fl: "float64 s = s" using assms(4) by (rule float64_representable)
  have "in_int64 (s - Unix (now e))"
    using assms(5,6) by (simp add: in_int64_def)
  then have delta: "wrap64 (s - Unix (now e)) = s - Unix (now e)"
    by (rule wrap64_id)
  have "in_int64 ((s - Unix (now e)) * Second)"
    using assms(5,6) by (simp add: in_int64_def Second_def)
  then have sleep: "wrap64 ((s - Unix (now e)) * Second) = (s - Unix (now e)) * Second"
    by (rule wrap64_id)
  have pos: "0 < wrap64 (int64 s - Unix (now e))"
    using assms(5) by (simp only: s64 delta)
  have it: "background_iter e mgr =
     (mgr\<lparr>redis := snd (redis_ZAdd (zadd_fault e) (name mgr) tid s (popped mgr tid))\<rparr>,
      [Call (BZPopMin Minute (name mgr)),
       Call (ZAdd (name mgr) tid s),
       Sleep ((s - Unix (now e)) * Second)])"
    using iter_not_due [OF assms(1,2) pos] by (simp only: s64 fl delta sleep)
  have st: "snd (redis_ZAdd None (name mgr) tid s (popped mgr tid)) = zadd (name mgr) tid s (redis mgr)"
    by (simp add: redis_ZAdd_def zadd_popped)
  have zs: "zsets (zadd (name mgr) tid s (redis mgr)) (name mgr) =
              (tid, s) # zdelete tid (zsets (redis mgr) (name mgr))"
    by (simp add: zadd_def)
  show ?thesis
    unfolding it using st zs background_back_to_pop [of es e mgr] it by simp
qed

text \<open>
  The amended claim C3 at the registered test timer, popped two seconds early.
\<close>

theorem C3_requeue_and_sleep_witness:
  "pop_fault env_a = None
   \<and> zmin (zsets (redis registered_mgr) (name registered_mgr)) = Some (''1'', 1700000003)
   \<and> in_int64 1700000003 \<and> representable 1700000003
   \<and> 0 < 1700000003 - Unix (now env_a) \<and> 1700000003 - Unix (now env_a) \<le> 9223372036
   \<and> zadd_fault env_a = None
   \<and> snd (background_iter env_a registered_mgr) =
        [Call (BZPopMin 60000000000 ''timer_name''),
         Call (ZAdd ''timer_name'' ''1'' 1700000003),
         Sleep 2000000000]
   \<and> zsets (redis (fst (background_iter env_a registered_mgr))) ''timer_name'' =
        [(''1'', 1700000003)]
   \<and> notifys (fst (background_iter env_a registered_mgr)) = notifys registered_mgr"
proof -
  have a: "pop_fault env_a = None" "zadd_fault env_a = None"
    by (simp_all add: env_a_def)
  have b: "in_int64 1700000003" "representable 1700000003"
    by (simp_all add: in_int64_def representable_def)
  have e: "name registered_mgr = ''timer_name''" "Minute = 60000000000"
    "(1700000003 - Unix (now env_a)) * Second = 2000000000"
    by (simp_all add: registered_mgr_eq Minute_def Second_def env_a_def Unix_def wrap64_def)
  have f: "zdelete ''1'' (zsets (redis registered_mgr) ''timer_name'') = []"
    by (simp add: registered_mgr_eq zdelete_def)
  show ?thesis
    using C3_requeue_and_sleep [OF a(1) registered_pop b env_a_delta, of "[]"]
      a registered_pop b env_a_delta e f
    by (simp add: zadd_def)
qed

text \<open>
  Claim C3 as stated fails for an entry due in more than 292 years: the seconds times
  \<open>time.Second\<close> wrap around in the \<open>Duration\<close> and the poller sleeps a negative duration,
  not the 10000000000 seconds between the clock and the deadline.
\<close>

theorem C3_sleep_counterexample:
  "pop_fault env0 = None
   \<and> zmin (zsets (redis far_mgr) (name far_mgr)) = Some (''1'', 11700000000)
   \<and> Unix (now env0) = 1700000000
   \<and> snd (background_iter env0 far_mgr) =
        [Call (BZPopMin 60000000000 ''timer_name''),
         Call (ZAdd ''timer_name'' ''1'' 11700000000),
         Sleep (- 8446744073709551616)]
   \<and> snd (background_iter env0 far_mgr) \<noteq>
        [Call (BZPopMin Minute (name far_mgr)),
         Call (ZAdd (name far_mgr) ''1'' 11700000000),
         Sleep ((11700000000 - Unix (now env0)) * Second)]"
proof -
  have a: "pop_fault env0 = None" "Unix (now env0) = 1700000000"
    by (simp_all add: env0_def clock0_def Unix_def wrap64_def)
  have pos: "0 < wrap64 (int64 11700000000 - Unix (now env0))"
    by (simp add: a wrap64_def int64_def in_int64_def)
  have it: "snd (background_iter env0 far_mgr) =
        [Call (BZPopMin 60000000000 ''timer_name''),
         Call (ZAdd ''timer_name'' ''1'' 11700000000),
         Sleep (- 8446744073709551616)]"
    unfolding iter_not_due [OF a(1) far_pop pos]
    by (simp add: a far_mgr_eq wrap64_def int64_def in_int64_def float64_def Minute_def Second_def)
  show ?thesis
    unfolding it using a far_pop by (simp add: Second_def)
qed



text \<open>
  Claim C5. The poller has popped a due timer and read its context, and the channel is full.
  If a consumer receives within the three seconds, the timer is sent. Otherwise
  \<open>time.After\<close> fires after three seconds, the overflow is logged as an error, the channel is
  unchanged and the timer is no longer in the sorted set: nothing puts it back. In both cases the
  loop goes on with the blocking pop.
\<close>

theorem C5_channel_full:
  assumes "pop_fault e = None" and "zmin (zsets (redis mgr) (name mgr)) = Some (tid, s)"
    and "wrap64 (int64 s - Unix (now e)) \<le> 0"
    and "get_fault e = None" and "strings (redis mgr) (ContextKey mgr tid) = Some (ctx, ttl)"
    and "cap (notifys mgr) \<le> length (buf (notifys mgr))"
  shows "(recv_ready e \<longrightarrow>
            background_iter e mgr =
              (mgr\<lparr>redis := popped mgr tid,
                   notifys := (notifys mgr)\<lparr>buf :=
                     tl (buf (notifys mgr) @
                         [\<lparr>ID = tid, Ctx = ctx, Deadline = time_Unix (int64 s) 0\<rparr>])\<rparr>\<rparr>,
               [Call (BZPopMin Minute (name mgr)), Call (Get (ContextKey mgr tid)),
                Send \<lparr>ID = tid, Ctx = ctx, Deadline = time_Unix (int64 s) 0\<rparr>]))
         \<and> (\<not> recv_ready e \<longrightarrow>
            background_iter e mgr =
              (mgr\<lparr>redis := popped mgr tid\<rparr>,
               [Call (BZPopMin Minute (name mgr)), Call (Get (ContextKey mgr tid)),
                After_fired (3 * Second),
                Log_Error ''failed to put into timer: notify channel overflow''])
            \<and> tid \<notin> fst ` set (zsets (redis (fst (background_iter e mgr))) (name mgr)))
         \<and> (es \<noteq> [] \<longrightarrow>
              (\<exists>rest. snd (background (e # es) mgr) =
                 snd (background_iter e mgr) @ Call (BZPopMin Minute (name mgr)) # rest))"
proof -
  let ?t = "\<lparr>ID = tid, Ctx = ctx, Deadline = time_Unix (int64 s) 0\<rparr>"
  have get: "fst (redis_Get (get_fault e) (ContextKey mgr tid) (popped mgr tid)) = Inr ctx"
    using assms(4,5) by (simp add: Get_popped)
  have it: "background_iter e mgr =
     (mgr\<lparr>redis := popped mgr tid,
          notifys := fst (select_send (recv_ready e) ?t (notifys mgr))\<rparr>,
      [Call (BZPopMin Minute (name mgr)), Call (Get (ContextKey mgr tid))] @
      snd (select_send (recv_ready e) ?t (notifys mgr)))"
    using iter_due [OF assms(1-3) get] .
  have full: "\<not> length (buf (notifys mgr)) < cap (notifys mgr)"
    using assms(6) by simp
  have ready: "select_send True ?t (notifys mgr) =
      ((notifys mgr)\<lparr>buf := tl (buf (notifys mgr) @ [?t])\<rparr>, [Send ?t])"
    using full by (simp add: select_send_def)
  have late: "select_send False ?t (notifys mgr) =
      (notifys mgr, [After_fired (3 * Second),
                     Log_Error ''failed to put into timer: notify channel overflow''])"
    using full by (simp add: select_send_def)
  have gone: "tid \<notin> fst ` set (zsets (popped mgr tid) (name mgr))"
    by (simp add: popped_def zdelete_absent)
  have r1: "background_iter e mgr =
              (mgr\<lparr>redis := popped mgr tid,
                   notifys := (notifys mgr)\<lparr>buf := tl (buf (notifys mgr) @ [?t])\<rparr>\<rparr>,
               [Call (BZPopMin Minute (name mgr)), Call (Get (ContextKey mgr tid)), Send ?t])"
    if "recv_ready e"
    using it that ready by simp
  have r2: "background_iter e mgr =
              (mgr\<lparr>redis := popped mgr tid\<rparr>,
               [Call (BZPopMin Minute (name mgr)), Call (Get (ContextKey mgr tid)),
                After_fired (3 * Second),
                Log_Error ''failed to put into timer: notify channel overflow''])"
    if "\<not> recv_ready e"
    using it that late by simp
  have r3: "tid \<notin> fst ` set (zsets (redis (fst (background_iter e mgr))) (name mgr))"
    using it gone by simp
  show ?thesis
    using r1 r2 r3 background_back_to_pop [of es e mgr] by blast
qed

text \<open>
  Claim C5 at the registered test timer, on an unbuffered channel with no consumer.
\<close>

theorem C5_channel_full_witness:
  "pop_fault env_b = None
   \<and> zmin (zsets (redis sync_mgr) (name sync_mgr)) = Some (''1'', 1700000003)
   \<and> wrap64 (int64 1700000003 - Unix (now env_b)) \<le> 0
   \<and> get_fault env_b = None
   \<and> strings (redis sync_mgr) (ContextKey sync_mgr ''1'') = Some (''ctx1'', Some 603000000000)
   \<and> cap (notifys sync_mgr) \<le> length (buf (notifys sync_mgr))
   \<and> \<not> recv_ready env_b
   \<and> snd (background_iter env_b sync_mgr) =
        [Call (BZPopMin 60000000000 ''timer_name''), Call (Get ''timer_name_1''),
         After_fired 3000000000,
         Log_Error ''failed to put into timer: notify channel overflow'']
   \<and> notifys (fst (background_iter env_b sync_mgr)) = notifys sync_mgr
   \<and> zsets (redis (fst (background_iter env_b sync_mgr))) ''timer_name'' = []"
proof -
  have a: "pop_fault env_b = None" "get_fault env_b = None" "\<not> recv_ready env_b"
    by (simp_all add: env_b_def)
  have b: "zmin (zsets (redis sync_mgr) (name sync_mgr)) = Some (''1'', 1700000003)"
    by (simp add: sync_mgr_eq)
  have c: "strings (redis sync_mgr) (ContextKey sync_mgr ''1'') = Some (''ctx1'', Some 603000000000)"
    by (simp add: sync_mgr_eq ContextKey_def)
  have d: "cap (notifys sync_mgr) \<le> length (buf (notifys sync_mgr))"
    by (simp add: sync_mgr_eq)
  have e: "name sync_mgr = ''timer_name''" "ContextKey sync_mgr ''1'' = ''timer_name_1''"
    "Minute = 60000000000" "3 * Second = 3000000000"
    by (simp_all add: sync_mgr_eq ContextKey_def Minute_def Second_def)
  have f: "zsets (popped sync_mgr ''1'') ''timer_name'' = []"
    by (simp add: popped_def sync_mgr_eq zdelete_def)
  show ?thesis
    using C5_channel_full [OF a(1) b env_b_due a(2) c d, of "[]"] a b env_b_due c d e f
    by simp
qed

text \<open>
  Claim C6. On a store that answers, \<open>DelTimer\<close> sends the removal of the sorted-set member
  and the deletion of the context key as one batch and returns no error, whether the ID exists
  or not; afterwards neither record exists; when neither existed the store is unchanged; and a
  second \<open>DelTimer\<close> of the same ID returns no error and leaves the store as the first did.
\<close>

theorem C6_DelTimer_idempotent:
  assumes "no_fault 2 faults" and "no_fault 2 faults'"
  shows "snd (snd (DelTimer faults tid mgr)) =
           [Pipeline [ZRem (name mgr) tid, Del (ContextKey mgr tid)]]
       \<and> fst (DelTimer faults tid mgr) = None
       \<and> tid \<notin> fst ` set (zsets (redis (fst (snd (DelTimer faults tid mgr)))) (name mgr))
       \<and> strings (redis (fst (snd (DelTimer faults tid mgr)))) (ContextKey mgr tid) = None
       \<and> (tid \<notin> fst ` set (zsets (redis mgr) (name mgr))
            \<and> strings (redis mgr) (ContextKey mgr tid) = None
            \<longrightarrow> fst (snd (DelTimer faults tid mgr)) = mgr)
       \<and> fst (DelTimer faults' tid (fst (snd (DelTimer faults tid mgr)))) = None
       \<and> fst (snd (DelTimer faults' tid (fst (snd (DelTimer faults tid mgr))))) =
           fst (snd (DelTimer faults tid mgr))"
proof -
  let ?m1 = "mgr\<lparr>redis := del (ContextKey mgr tid) (zrem (name mgr) tid (redis mgr))\<rparr>"
  have one: "DelTimer faults tid mgr =
      (None, ?m1, [Pipeline [ZRem (name mgr) tid, Del (ContextKey mgr tid)]])"
    using assms(1) by (rule DelTimer_store)
  have two: "DelTimer faults' tid ?m1 =
      (None, ?m1\<lparr>redis := del (ContextKey ?m1 tid) (zrem (name ?m1) tid (redis ?m1))\<rparr>,
       [Pipeline [ZRem (name ?m1) tid, Del (ContextKey ?m1 tid)]])"
    using assms(2) by (rule DelTimer_store)
  have gone: "tid \<notin> fst ` set (zsets (redis ?m1) (name mgr))"
    by (simp add: del_def zrem_def zdelete_absent)
  have nokey: "strings (redis ?m1) (ContextKey mgr tid) = None"
    by (simp add: del_def zrem_def)
  have noop: "?m1 = mgr"
    if "tid \<notin> fst ` set (zsets (redis mgr) (name mgr))"
      and "strings (redis mgr) (ContextKey mgr tid) = None"
  proof -
    have "(zsets (redis mgr))(name mgr := zdelete tid (zsets (redis mgr) (name mgr))) = zsets (redis mgr)"
      using that(1) by (simp add: zdelete_missing)
    moreover have "(strings (redis mgr))(ContextKey mgr tid := None) = strings (redis mgr)"
      using that(2) by (metis fun_upd_triv)
    ultimately show ?thesis by (simp add: del_def zrem_def)
  qed
  have idem: "?m1\<lparr>redis := del (ContextKey ?m1 tid) (zrem (name ?m1) tid (redis ?m1))\<rparr> = ?m1"
    by (simp add: ContextKey_def del_def zrem_def zdelete_idem)
  have r1: "fst (DelTimer faults tid mgr) = None" "fst (snd (DelTimer faults tid mgr)) = ?m1"
    "snd (snd (DelTimer faults tid mgr)) =
       [Pipeline [ZRem (name mgr) tid, Del (ContextKey mgr tid)]]"
    by (simp_all only: one fst_conv snd_conv)
  have r2: "fst (DelTimer faults' tid ?m1) = None" "fst (snd (DelTimer faults' tid ?m1)) = ?m1"
    by (simp_all only: two idem fst_conv snd_conv)
  show ?thesis
    unfolding r1 using r2 gone nokey noop by blast
qed

text \<open>
  Claim C6 at an ID that was never registered.
\<close>

theorem C6_DelTimer_idempotent_witness:
  "no_fault 2 [] \<and> ''9'' \<notin> fst ` set (zsets (redis test_mgr) (name test_mgr))
   \<and> strings (redis test_mgr) (ContextKey test_mgr ''9'') = None
   \<and> DelTimer [] ''9'' test_mgr =
       (None, test_mgr, [Pipeline [ZRem ''timer_name'' ''9'', Del ''timer_name_9'']])
   \<and> fst (DelTimer [] ''9'' (fst (snd (DelTimer [] ''9'' test_mgr)))) = None
   \<and> fst (snd (DelTimer [] ''9'' (fst (snd (DelTimer [] ''9'' test_mgr))))) = test_mgr"
proof -
  have a: "no_fault 2 []" by (simp add: no_fault_def)
  have b: "''9'' \<notin> fst ` set (zsets (redis test_mgr) (name test_mgr))"
    by (simp add: test_mgr_def empty_store_def)
  have c: "strings (redis test_mgr) (ContextKey test_mgr ''9'') = None"
    by (simp add: test_mgr_def empty_store_def)
  have d: "name test_mgr = ''timer_name''" "ContextKey test_mgr ''9'' = ''timer_name_9''"
    by (simp_all add: test_mgr_def ContextKey_def)
  show ?thesis
    using C6_DelTimer_idempotent [OF a a, of "''9''" test_mgr] a b c d
    by (metis prod.collapse)
qed

text \<open>
  Claim C7. The poller has popped a due timer, and the read of its context key fails or
  finds nothing. Then the turn ends with a warning in the log: nothing is sent, the channel is
  unchanged, the only store commands are the pop and the read, the timer is no longer in the
  sorted set, and the loop goes on with the blocking pop.
\<close>

theorem C7_context_unreadable:
  assumes "pop_fault e = None" and "zmin (zsets (redis mgr) (name mgr)) = Some (tid, s)"
    and "wrap64 (int64 s - Unix (now e)) \<le> 0"
    and "get_fault e \<noteq> None \<or> strings (redis mgr) (ContextKey mgr tid) = None"
  shows "background_iter e mgr =
           (mgr\<lparr>redis := popped mgr tid\<rparr>,
            [Call (BZPopMin Minute (name mgr)),
             Call (Get (ContextKey mgr tid)),
             Log_Warn (''failed to get timer context: '' @
                       (case get_fault e of Some msg \<Rightarrow> msg | None \<Rightarrow> ''redis: nil''))])
         \<and> sent (snd (background_iter e mgr)) = []
         \<and> notifys (fst (background_iter e mgr)) = notifys mgr
         \<and> store_cmds (snd (background_iter e mgr)) =
             [BZPopMin Minute (name mgr), Get (ContextKey mgr tid)]
         \<and> tid \<notin> fst ` set (zsets (redis (fst (background_iter e mgr))) (name mgr))
         \<and> (es \<noteq> [] \<longrightarrow>
              (\<exists>rest. snd (background (e # es) mgr) =
                 snd (background_iter e mgr) @ Call (BZPopMin Minute (name mgr)) # rest))"
proof -
  let ?err = "case get_fault e of Some msg \<Rightarrow> RedisErr msg | None \<Rightarrow> RedisNil"
  have get: "fst (redis_Get (get_fault e) (ContextKey mgr tid) (popped mgr tid)) = Inl ?err"
    using assms(4) by (auto simp add: Get_popped split: option.splits)
  have msg: "err_string ?err = (case get_fault e of Some msg \<Rightarrow> msg | None \<Rightarrow> ''redis: nil'')"
    by (simp split: option.splits)
  have it: "background_iter e mgr =
           (mgr\<lparr>redis := popped mgr tid\<rparr>,
            [Call (BZPopMin Minute (name mgr)),
             Call (Get (ContextKey mgr tid)),
             Log_Warn (''failed to get timer context: '' @
                       (case get_fault e of Some msg \<Rightarrow> msg | None \<Rightarrow> ''redis: nil''))])"
    using iter_get_failed [OF assms(1-3) get] by (simp only: msg)
  have gone: "tid \<notin> fst ` set (zsets (popped mgr tid) (name mgr))"
    by (simp add: popped_def zdelete_absent)
  show ?thesis
    unfolding it using gone background_back_to_pop [of es e mgr] it by simp
qed

text \<open>
  Claim C7 at the registered test timer, with a read that fails in transport.
\<close>

theorem C7_context_unreadable_witness:
  "pop_fault (env_b\<lparr>get_fault := Some ''EOF''\<rparr>) = None
   \<and> zmin (zsets (redis registered_mgr) (name registered_mgr)) = Some (''1'', 1700000003)
   \<and> wrap64 (int64 1700000003 - Unix (now (env_b\<lparr>get_fault := Some ''EOF''\<rparr>))) \<le> 0
   \<and> get_fault (env_b\<lparr>get_fault := Some ''EOF''\<rparr>) \<noteq> None
   \<and> snd (background_iter (env_b\<lparr>get_fault := Some ''EOF''\<rparr>) registered_mgr) =
        [Call (BZPopMin 60000000000 ''timer_name''),
         Call (Get ''timer_name_1''),
         Log_Warn ''failed to get timer context: EOF'']
   \<and> zsets (redis (fst (background_iter (env_b\<lparr>get_fault := Some ''EOF''\<rparr>) registered_mgr)))
        ''timer_name'' = []"
proof -
  let ?e = "env_b\<lparr>get_fault := Some ''EOF''\<rparr>"
  have a: "pop_fault ?e = None" by (simp add: env_b_def)
  have b: "wrap64 (int64 1700000003 - Unix (now ?e)) \<le> 0" using env_b_due by simp
  have c: "get_fault ?e \<noteq> None \<or> strings (redis registered_mgr) (ContextKey registered_mgr ''1'') = None"
    by simp
  have d: "name registered_mgr = ''timer_name''" "ContextKey registered_mgr ''1'' = ''timer_name_1''"
    "Minute = 60000000000"
    by (simp_all add: registered_mgr_eq ContextKey_def Minute_def Second_def)
  have e: "zsets (popped registered_mgr ''1'') ''timer_name'' = []"
    by (simp add: popped_def registered_mgr_eq zdelete_def)
  show ?thesis
    using C7_context_unreadable [OF a registered_pop b c, of "[]"] a registered_pop b d e
    by simp
qed

text \<open>
  Claim C8. In a turn that pops a due timer, the only commands the poller sends to the store
  are the pop and the read of the context key: no delete. The string keys, the context among
  them, are as before, and so are the sorted sets but for the popped member.
\<close>

theorem C8_firing_leaves_context:
  assumes "pop_fault e = None" and "zmin (zsets (redis mgr) (name mgr)) = Some (tid, s)"
    and "wrap64 (int64 s - Unix (now e)) \<le> 0"
  shows "store_cmds (snd (background_iter e mgr)) =
           [BZPopMin Minute (name mgr), Get (ContextKey mgr tid)]
         \<and> strings (redis (fst (background_iter e mgr))) = strings (redis mgr)
         \<and> zsets (redis (fst (background_iter e mgr))) =
             (zsets (redis mgr))(name mgr :=
                filter (\<lambda>entry. fst entry \<noteq> tid) (zsets (redis mgr) (name mgr)))"
proof (cases "fst (redis_Get (get_fault e) (ContextKey mgr tid) (popped mgr tid))")
  case (Inl err)
  show ?thesis
    unfolding iter_get_failed [OF assms Inl] by (simp add: popped_def zdelete_def)
next
  case (Inr ctx)
  show ?thesis
    unfolding iter_due [OF assms Inr] by (simp add: popped_def zdelete_def select_send_cmds)
qed

text \<open>
  Claim C8 at the registered test timer: after it fired, its context is still in the store.
\<close>

theorem C8_firing_leaves_context_witness:
  "pop_fault env_b = None
   \<and> zmin (zsets (redis registered_mgr) (name registered_mgr)) = Some (''1'', 1700000003)
   \<and> wrap64 (int64 1700000003 - Unix (now env_b)) \<le> 0
   \<and> store_cmds (snd (background_iter env_b registered_mgr)) =
        [BZPopMin 60000000000 ''timer_name'', Get ''timer_name_1'']
   \<and> strings (redis (fst (background_iter env_b registered_mgr))) ''timer_name_1'' =
        Some (''ctx1'', Some 603000000000)
   \<and> zsets (redis (fst (background_iter env_b registered_mgr))) ''timer_name'' = []"
proof -
  have a: "pop_fault env_b = None"
    by (simp add: env_b_def)
  have e: "name registered_mgr = ''timer_name''" "ContextKey registered_mgr ''1'' = ''timer_name_1''"
    "Minute = 60000000000"
    by (simp_all add: registered_mgr_eq ContextKey_def Minute_def Second_def)
  have f: "strings (redis registered_mgr) ''timer_name_1'' = Some (''ctx1'', Some 603000000000)"
    "zsets (redis registered_mgr) ''timer_name'' = [(''1'', 1700000003)]"
    by (simp_all add: registered_mgr_eq)
  show ?thesis
    using C8_firing_leaves_context [OF a registered_pop env_b_due] a registered_pop env_b_due e f
    by simp
qed

text \<open>
  Claim C9. \<open>AddTimer\<close> checks nothing about its timer: for every timer, the empty ID
  included, it sends the batch of the two writes, it returns an error exactly when a command of
  the batch fails, and when none fails both records are in the store.
\<close>

theorem C9_AddTimer_no_validation:
  "(\<exists>exp. snd (snd (AddTimer nw faults t mgr)) =
            [Pipeline [Set (ContextKey mgr (ID t)) (Ctx t) exp,
                       ZAdd (name mgr) (ID t) (float64 (Unix (Deadline t)))]])
   \<and> (fst (AddTimer nw faults t mgr) = None \<longleftrightarrow> no_fault 2 faults)
   \<and> (no_fault 2 faults \<longrightarrow>
        (\<exists>exp. strings (redis (fst (snd (AddTimer nw faults t mgr)))) (ContextKey mgr (ID t)) =
                 Some (Ctx t, exp))
        \<and> zsets (redis (fst (snd (AddTimer nw faults t mgr)))) (name mgr) =
            (ID t, float64 (Unix (Deadline t))) # zdelete (ID t) (zsets (redis mgr) (name mgr)))"
proof -
  have "\<exists>exp. snd (snd (AddTimer nw faults t mgr)) =
            [Pipeline [Set (ContextKey mgr (ID t)) (Ctx t) exp,
                       ZAdd (name mgr) (ID t) (float64 (Unix (Deadline t)))]]"
    using AddTimer_events by blast
  moreover have "fst (AddTimer nw faults t mgr) = None \<longleftrightarrow> no_fault 2 faults"
    by (rule AddTimer_error_iff)
  moreover have "(\<exists>exp. strings (redis (fst (snd (AddTimer nw faults t mgr)))) (ContextKey mgr (ID t)) =
                 Some (Ctx t, exp))
        \<and> zsets (redis (fst (snd (AddTimer nw faults t mgr)))) (name mgr) =
            (ID t, float64 (Unix (Deadline t))) # zdelete (ID t) (zsets (redis mgr) (name mgr))"
    if "no_fault 2 faults"
    using AddTimer_ok [OF that, of nw t mgr] set_ex_value
    by (simp add: zadd_def set_ex_zsets)
  ultimately show ?thesis by blast
qed

text \<open>
  Claim C9 at a timer whose ID is the empty string, with and without a failing command.
\<close>

theorem C9_AddTimer_no_validation_witness:
  "ID anon_timer = [] \<and> no_fault 2 [] \<and> \<not> no_fault 2 [None, Some ''EOF'']
   \<and> fst (AddTimer clock0 [] anon_timer test_mgr) = None
   \<and> fst (AddTimer clock0 [None, Some ''EOF''] anon_timer test_mgr) \<noteq> None
   \<and> zsets (redis (fst (snd (AddTimer clock0 [] anon_timer test_mgr)))) ''timer_name'' =
        [([], 1700000003)]"
  using C9_AddTimer_no_validation [of clock0 "[]" anon_timer test_mgr]
    C9_AddTimer_no_validation [of clock0 "[None, Some ''EOF'']" anon_timer test_mgr]
  by (simp add: no_fault_def anon_timer_def test_mgr_def empty_store_def zdelete_def
      float64_def Unix_def wrap64_def)




end
